theory Spec2Isabelle
  imports Main "HOL-Library.Word"
begin

section \<open>Shared data: messages, application errors, timestamps\<close>

text \<open>
  An \<open>i18n.Message\<close> literal of the Go sources carries an identifier and a default
  English text; both are kept.
\<close>

datatype Message = Message (msg_ID: string) (msg_Other: string)

text \<open>
  \<open>locale.GetUserLocalizer("en")\<close> is represented by the locale tag it is called with.
\<close>

type_synonym Localizer = string

definition GetUserLocalizer :: "string \<Rightarrow> Localizer" where
  "GetUserLocalizer tag = tag"

datatype ErrCode = ErrInternal | ErrInvalid | ErrConflict

text \<open>
  The constructors of \<open>*model.AppErr\<close> (\<open>model.NewAppErr\<close>, \<open>model.Invalid\<close>,
  \<open>model.NewValidationError\<close>) are declared outside the files read here. Each is kept as a
  free constructor over exactly the arguments the call sites pass, so two errors are equal
  only when they were built by the same call with the same arguments. The trailing
  \<open>details\<close> argument of \<open>NewAppErr\<close> is \<open>nil\<close> at every call site and is left out.
\<close>

datatype AppErr =
    NewAppErr string ErrCode Localizer Message nat
  | Invalid string Localizer Message
  | NewValidationError string Message string "AppErr list"

text \<open>
  \<open>model.ValidationErrors\<close> is used through \<open>Add\<close> and \<open>IsZero\<close> only: a collection
  that starts empty (\<open>var errs ValidationErrors\<close>), grows by one entry per \<open>Add\<close> and is
  zero exactly while nothing was added. It is a list in insertion order.
\<close>

type_synonym ValidationErrors = "AppErr list"

definition Add :: "ValidationErrors \<Rightarrow> AppErr \<Rightarrow> ValidationErrors" where
  "Add errs e = errs @ [e]"

definition IsZero :: "ValidationErrors \<Rightarrow> bool" where
  "IsZero errs = (errs = [])"

text \<open>
  A \<open>time.Time\<close> is the signed distance in nanoseconds from the zero instant
  (January 1, year 1, 00:00:00 UTC); \<open>Time.IsZero\<close> holds of that instant only.
\<close>

type_synonym Time = int

definition Time_IsZero :: "Time \<Rightarrow> bool" where
  "Time_IsZero t = (t = 0)"

type_synonym int64 = "64 word"


section \<open>model/product\_brand.go\<close>

definition msgInvalidBrand :: Message where
  "msgInvalidBrand = Message ''model.product_brand.validate.app_error'' ''invalid brand data''"

definition msgValidateBrandID :: Message where
  "msgValidateBrandID = Message ''model.product_brand.validate.id.app_error'' ''invalid brand id''"

definition msgValidateBrandProductID :: Message where
  "msgValidateBrandProductID =
     Message ''model.product_brand.validate.product_id.app_error'' ''invalid brand product id''"

definition msgValidateBrandName :: Message where
  "msgValidateBrandName =
     Message ''model.product_brand.validate.name.app_error'' ''invalid brand name''"

definition msgValidateBrandSlug :: Message where
  "msgValidateBrandSlug =
     Message ''model.product_brand.validate.slug.app_error'' ''invalid brand slug''"

definition msgValidateBrandDescription :: Message where
  "msgValidateBrandDescription =
     Message ''model.product_brand.validate.description.app_error'' ''invalid brand description''"

definition msgValidateBrandType :: Message where
  "msgValidateBrandType =
     Message ''model.product_brand.validate.type.app_error'' ''invalid brand type''"

definition msgValidateBrandEmail :: Message where
  "msgValidateBrandEmail =
     Message ''model.product_brand.validate.email.app_error'' ''invalid brand email''"

definition msgValidateBrandWebsiteURL :: Message where
  "msgValidateBrandWebsiteURL =
     Message ''model.product_brand.validate.website_url.app_error'' ''invalid brand website URL''"

definition msgValidateBrandCrAt :: Message where
  "msgValidateBrandCrAt =
     Message ''model.product_brand.validate.created_at.app_error''
       ''invalid brand created_at timestamp''"

definition msgValidateBrandUpAt :: Message where
  "msgValidateBrandUpAt =
     Message ''model.product_brand.validate.updated_at.app_error''
       ''invalid brand updated_at timestamp''"

record ProductBrand =
  ID :: int64
  ProductID :: int64
  Name :: string
  Slug :: string
  Type :: string
  Description :: string
  Email :: string
  WebsiteURL :: string
  CreatedAt :: Time
  UpdatedAt :: Time

text \<open>
  \<open>Validate\<close> runs its ten checks in the order of the source, each adding to \<open>errs\<close>,
  and returns \<open>nil\<close> (\<open>None\<close>) or the validation error built from \<open>errs\<close>.
\<close>

definition Validate :: "ProductBrand \<Rightarrow> AppErr option" where
  "Validate pb =
    (let l = GetUserLocalizer ''en'';
         errs0 = [];
         errs1 = (if ID pb \<noteq> 0 then Add errs0 (Invalid ''brand.id'' l msgValidateBrandID) else errs0);
         errs2 = (if ProductID pb \<noteq> 0
                  then Add errs1 (Invalid ''brand.product_id'' l msgValidateBrandProductID) else errs1);
         errs3 = (if Name pb = '''' then Add errs2 (Invalid ''brand.name'' l msgValidateBrandName) else errs2);
         errs4 = (if Slug pb = '''' then Add errs3 (Invalid ''brand.slug'' l msgValidateBrandSlug) else errs3);
         errs5 = (if Type pb = '''' then Add errs4 (Invalid ''brand.type'' l msgValidateBrandType) else errs4);
         errs6 = (if Description pb = ''''
                  then Add errs5 (Invalid ''brand.description'' l msgValidateBrandDescription) else errs5);
         errs7 = (if Email pb = '''' then Add errs6 (Invalid ''brand.email'' l msgValidateBrandEmail) else errs6);
         errs8 = (if WebsiteURL pb = ''''
                  then Add errs7 (Invalid ''brand.website_url'' l msgValidateBrandWebsiteURL) else errs7);
         errs9 = (if Time_IsZero (CreatedAt pb)
                  then Add errs8 (Invalid ''brand.created_at'' l msgValidateBrandCrAt) else errs8);
         errs10 = (if Time_IsZero (UpdatedAt pb)
                   then Add errs9 (Invalid ''brand.updated_at'' l msgValidateBrandUpAt) else errs9)
     in if \<not> IsZero errs10
        then Some (NewValidationError ''ProductBrand'' msgInvalidBrand '''' errs10)
        else None)"

text \<open>
  The claim's reading of the result, written without reference to the code: the table of
  the ten fields with the condition under which each fails, and the entries of the failing
  ones.
\<close>

definition brand_field_table :: "ProductBrand \<Rightarrow> (bool \<times> AppErr) list" where
  "brand_field_table pb =
    [(ID pb \<noteq> 0, Invalid ''brand.id'' ''en'' msgValidateBrandID),
     (ProductID pb \<noteq> 0, Invalid ''brand.product_id'' ''en'' msgValidateBrandProductID),
     (Name pb = [], Invalid ''brand.name'' ''en'' msgValidateBrandName),
     (Slug pb = [], Invalid ''brand.slug'' ''en'' msgValidateBrandSlug),
     (Type pb = [], Invalid ''brand.type'' ''en'' msgValidateBrandType),
     (Description pb = [], Invalid ''brand.description'' ''en'' msgValidateBrandDescription),
     (Email pb = [], Invalid ''brand.email'' ''en'' msgValidateBrandEmail),
     (WebsiteURL pb = [], Invalid ''brand.website_url'' ''en'' msgValidateBrandWebsiteURL),
     (CreatedAt pb = 0, Invalid ''brand.created_at'' ''en'' msgValidateBrandCrAt),
     (UpdatedAt pb = 0, Invalid ''brand.updated_at'' ''en'' msgValidateBrandUpAt)]"

definition brand_failing_entries :: "ProductBrand \<Rightarrow> AppErr list" where
  "brand_failing_entries pb = map snd (filter fst (brand_field_table pb))"

definition brand_failing_count :: "ProductBrand \<Rightarrow> nat" where
  "brand_failing_count pb = length (filter fst (brand_field_table pb))"


section \<open>The HTTP boundary shared by the handlers\<close>

text \<open>
  A handler receives a response writer \<open>w\<close> and a request \<open>r\<close>. What it does to \<open>w\<close> is
  recorded as the list of calls it makes, in order: \<open>respondError\<close>, \<open>respondJSON\<close>,
  \<open>respondOK\<close>, and the two cookie operations of the application layer that write to \<open>w\<close>.
  The argument of \<open>respondError\<close> is a \<open>*model.AppErr\<close>, which may be \<open>nil\<close> (\<open>None\<close>).
  \<open>'tm\<close> is the type of the token metadata pointer and \<open>'p\<close> the type of a JSON payload;
  both are declared outside the files read here and are passed on untouched.
\<close>

datatype ('tm, 'p) Effect =
    RespondError "AppErr option"
  | RespondJSON nat 'p
  | RespondOK
  | AttachSessionCookies 'tm
  | DeleteSessionCookies

text \<open>
  A handler either returns, or panics (a \<open>nil\<close> dereference, an index out of range); the
  calls made on \<open>w\<close> up to that point are kept in both cases.
\<close>

datatype PanicKind = NilPointerDereference | IndexOutOfRange

datatype 'e Outcome = Returned "'e list" | Panicked PanicKind "'e list"

text \<open>A Go \<open>error\<close> value of a library call; handlers only test it against \<open>nil\<close>.\<close>

datatype GoError = GoError string

definition StatusOK :: nat where "StatusOK = 200"
definition StatusCreated :: nat where "StatusCreated = 201"
definition StatusInternalServerError :: nat where "StatusInternalServerError = 500"

text \<open>
  \<open>multipart.Form\<close>: the text fields and the uploaded files, each a Go map from the field
  name to a slice. Indexing a Go map at a missing key gives the \<open>nil\<close> slice.
\<close>

record 'fh Form =
  Value :: "string \<rightharpoonup> string list"
  File :: "string \<rightharpoonup> 'fh list"

definition map_index :: "(string \<rightharpoonup> 'a list) \<Rightarrow> string \<Rightarrow> 'a list" where
  "map_index m k = (case m k of None \<Rightarrow> [] | Some xs \<Rightarrow> xs)"

text \<open>
  The parts of \<open>*http.Request\<close> the handlers read: the body, the URL parameters of the
  router (\<open>chi.URLParam\<close> gives the empty string for a missing one), the error
  \<open>r.ParseMultipartForm(model.FileUploadSizeLimit)\<close> returns on this request, and the form
  \<open>r.MultipartForm\<close> holds after a successful parse.
\<close>

record 'fh Request =
  Body :: string
  URLParam :: "string \<Rightarrow> string"
  ParseMultipartForm :: "GoError option"
  MultipartForm :: "'fh Form"


section \<open>api/v1/user.go: createUser, login, logout, refresh\<close>

definition msgUserFromJSON :: Message where
  "msgUserFromJSON = Message ''api.user.create_user.json.app_error'' ''could not decode user json data''"

definition msgRefreshTokenFromJSON :: Message where
  "msgRefreshTokenFromJSON =
     Message ''api.user.create_user.json.app_error'' ''could not decode token json data''"

text \<open>
  \<open>model.User\<close> and the access details returned by \<open>ExtractTokenMetadata\<close> are declared
  outside the files read here; the records hold the fields these files read
  (\<open>user.ID\<close>, \<open>user.AvatarPublicID\<close>, \<open>ad.AccessUUID\<close>). Both are handled through
  pointers, so a value of the handlers is an \<open>option\<close> and reading a field of \<open>nil\<close> panics.
\<close>

record User =
  User_ID :: int64
  AvatarPublicID :: "string option"

record AccessData =
  AccessUUID :: string

text \<open>
  The collaborators of the user handlers: the JSON decoders of package \<open>model\<close> and the
  methods of the application layer \<open>a.app\<close>. Their bodies are outside the files read here,
  so each is a parameter, with the result shape of its Go signature: a value together with
  an error that may be \<open>nil\<close>. Each is called at most once per request.
\<close>

record ('login, 'rt, 'tm, 'fh) UserApp =
  UserFromJSON :: "string \<Rightarrow> User option \<times> GoError option"
  UserLoginFromJSON :: "string \<Rightarrow> 'login \<times> GoError option"
  RefreshTokenFromJSON :: "string \<Rightarrow> 'rt \<times> GoError option"
  CreateUser :: "User option \<Rightarrow> User option \<times> AppErr option"
  Login :: "'login \<Rightarrow> User option \<times> AppErr option"
  IssueTokens :: "User option \<Rightarrow> 'tm \<times> AppErr option"
  SaveAuth :: "int64 \<Rightarrow> 'tm \<Rightarrow> AppErr option"
  ExtractTokenMetadata :: "'fh Request \<Rightarrow> AccessData option \<times> AppErr option"
  DeleteAuth :: "string \<Rightarrow> int64 \<times> AppErr option"
  RefreshToken :: "'rt \<Rightarrow> 'tm \<times> AppErr option"

definition createUser ::
  "('login, 'rt, 'tm, 'fh) UserApp \<Rightarrow> 'fh Request \<Rightarrow> ('tm, User option) Effect Outcome" where
  "createUser a r =
    (let (u, e) = UserFromJSON a (Body r) in
     if e \<noteq> None
     then Returned [RespondError (Some (NewAppErr ''createUser'' ErrInternal (GetUserLocalizer ''en'')
                      msgUserFromJSON StatusInternalServerError))]
     else
       let (user, err) = CreateUser a u in
       if err \<noteq> None then Returned [RespondError err]
       else
         let (tokenMeta, err) = IssueTokens a user;
             w1 = (if err \<noteq> None then [RespondError err] else [])
         in case user of
              None \<Rightarrow> Panicked NilPointerDereference w1
            | Some usr \<Rightarrow>
                let err = SaveAuth a (User_ID usr) tokenMeta;
                    w2 = (if err \<noteq> None then w1 @ [RespondError err] else w1)
                in Returned (w2 @ [AttachSessionCookies tokenMeta, RespondJSON StatusCreated user]))"

definition login ::
  "('login, 'rt, 'tm, 'fh) UserApp \<Rightarrow> 'fh Request \<Rightarrow> ('tm, User option) Effect Outcome" where
  "login a r =
    (let (u, e) = UserLoginFromJSON a (Body r) in
     if e \<noteq> None
     then Returned [RespondError (Some (NewAppErr ''login'' ErrInternal (GetUserLocalizer ''en'')
                      msgUserFromJSON StatusInternalServerError))]
     else
       let (user, err) = Login a u in
       if err \<noteq> None then Returned [RespondError err]
       else
         let (tokenMeta, err) = IssueTokens a user;
             w1 = (if err \<noteq> None then [RespondError err] else [])
         in case user of
              None \<Rightarrow> Panicked NilPointerDereference w1
            | Some usr \<Rightarrow>
                let err = SaveAuth a (User_ID usr) tokenMeta;
                    w2 = (if err \<noteq> None then w1 @ [RespondError err] else w1)
                in Returned (w2 @ [AttachSessionCookies tokenMeta, RespondJSON StatusOK user]))"

definition logout ::
  "('login, 'rt, 'tm, 'fh) UserApp \<Rightarrow> 'fh Request \<Rightarrow> ('tm, User option) Effect Outcome" where
  "logout a r =
    (let w0 = [DeleteSessionCookies];
         (ad, err) = ExtractTokenMetadata a r in
     if err \<noteq> None then Returned (w0 @ [RespondError err])
     else
       case ad of
         None \<Rightarrow> Panicked NilPointerDereference w0
       | Some acc \<Rightarrow>
           let (deleted, err) = DeleteAuth a (AccessUUID acc) in
           if err \<noteq> None \<or> deleted = 0 then Returned (w0 @ [RespondError err])
           else Returned (w0 @ [RespondOK]))"

definition refresh ::
  "('login, 'rt, 'tm, 'fh) UserApp \<Rightarrow> 'fh Request \<Rightarrow> ('tm, User option) Effect Outcome" where
  "refresh a r =
    (let (rt, e) = RefreshTokenFromJSON a (Body r) in
     if e \<noteq> None
     then Returned [RespondError (Some (NewAppErr ''refresh'' ErrInternal (GetUserLocalizer ''en'')
                      msgRefreshTokenFromJSON StatusInternalServerError))]
     else
       let (meta, err) = RefreshToken a rt in
       if err \<noteq> None then Returned [RespondError err]
       else Returned [AttachSessionCookies meta, RespondOK])"


section \<open>The product handlers createProduct and patchProduct\<close>

definition msgProductPatchFromJSON :: Message where
  "msgProductPatchFromJSON =
     Message ''api.product.patch_product.app_error'' ''could not decode product patch data''"

definition msgProductAvatarMultipart :: Message where
  "msgProductAvatarMultipart =
     Message ''api.product.create_product.multipart.app_error''
       ''could not decode product multipart data''"

definition msgURLParamErr :: Message where
  "msgURLParamErr = Message ''api.product.url.params.app_error'' ''could not parse URL params''"

text \<open>
  \<open>&model.ProductTag{TagID: model.NewInt64(id)}\<close>: a tag with its identifier set (a pointer
  to the parsed number) and every other field zero.
\<close>

record ProductTag =
  TagID :: "int64 option"

text \<open>
  The collaborators of the product handlers: \<open>strconv.ParseInt(s, 10, 64)\<close>, the decoders
  \<open>model.SchemaDecoder.Decode\<close> and \<open>model.ProductPatchFromJSON\<close>, and the application
  methods. \<open>'product\<close>, \<open>'patch\<close> and \<open>'fh\<close> (a \<open>*multipart.FileHeader\<close>) are declared
  outside the files read here. \<open>SchemaDecoder_Decode\<close> gives the product it filled in and
  its error; the preceding \<open>IgnoreUnknownKeys(true)\<close> configures that decoder and writes
  nothing to the response.
\<close>

record ('product, 'patch, 'fh) ProductApp =
  ParseInt :: "string \<Rightarrow> int64 \<times> GoError option"
  SchemaDecoder_Decode :: "(string \<rightharpoonup> string list) \<Rightarrow> 'product \<times> GoError option"
  ProductPatchFromJSON :: "string \<Rightarrow> 'patch \<times> GoError option"
  CreateProduct ::
    "'product \<Rightarrow> 'fh \<Rightarrow> 'fh list \<Rightarrow> ProductTag list \<Rightarrow> string \<Rightarrow> 'product \<times> AppErr option"
  PatchProduct :: "int64 \<Rightarrow> 'patch \<Rightarrow> 'product \<times> AppErr option"

text \<open>
  The loop of \<open>createProduct\<close> over the tag identifiers: \<open>None\<close> when one of them does
  not parse (the handler then responds with an error and returns), otherwise the tags
  appended to \<open>tags\<close> in order.
\<close>

fun parse_tags ::
  "(string \<Rightarrow> int64 \<times> GoError option) \<Rightarrow> string list \<Rightarrow> ProductTag list \<Rightarrow> ProductTag list option"
where
  "parse_tags pint [] tags = Some tags"
| "parse_tags pint (tid # tagids) tags =
     (let (n, err) = pint tid in
      if err \<noteq> None then None
      else parse_tags pint tagids (tags @ [\<lparr>TagID = Some n\<rparr>]))"

definition createProduct ::
  "('product, 'patch, 'fh) ProductApp \<Rightarrow> 'fh Request \<Rightarrow> ('tm, 'product) Effect Outcome" where
  "createProduct a r =
    (if ParseMultipartForm r \<noteq> None
     then Returned [RespondError (Some (NewAppErr ''createProduct'' ErrInternal (GetUserLocalizer ''en'')
                      msgProductAvatarMultipart StatusInternalServerError))]
     else
       let mpf = MultipartForm r;
           (p, err) = SchemaDecoder_Decode a (Value mpf) in
       if err \<noteq> None
       then Returned [RespondError (Some (NewAppErr ''createProduct'' ErrInternal (GetUserLocalizer ''en'')
                        msgProductAvatarMultipart StatusInternalServerError))]
       else
         let tagids = map_index (Value mpf) ''tags'';
             headers = map_index (File mpf) ''images''
         in case map_index (File mpf) ''image'' of
              [] \<Rightarrow> Panicked IndexOutOfRange []
            | fh # _ \<Rightarrow>
               (case map_index (Value mpf) ''properties'' of
                  [] \<Rightarrow> Panicked IndexOutOfRange []
                | properties # _ \<Rightarrow>
                   (case parse_tags (ParseInt a) tagids [] of
                      None \<Rightarrow>
                        Returned [RespondError (Some (NewAppErr ''createProduct'' ErrInternal
                          (GetUserLocalizer ''en'') msgProductAvatarMultipart StatusInternalServerError))]
                    | Some tags \<Rightarrow>
                        let (product, pErr) = CreateProduct a p fh headers tags properties in
                        if pErr \<noteq> None then Returned [RespondError pErr]
                        else Returned [RespondJSON StatusCreated product])))"

text \<open>
  In \<open>patchProduct\<close> the variable \<open>err\<close> is assigned by \<open>ParseInt\<close> and again by
  \<open>ProductPatchFromJSON\<close>; the result of \<open>PatchProduct\<close> goes to \<open>uprod\<close> and \<open>pErr\<close>, and
  the test that follows reads \<open>err\<close>.
\<close>

definition patchProduct ::
  "('product, 'patch, 'fh) ProductApp \<Rightarrow> 'fh Request \<Rightarrow> ('tm, 'product) Effect Outcome" where
  "patchProduct a r =
    (let (pid, err) = ParseInt a (URLParam r ''product_id'') in
     if err \<noteq> None
     then Returned [RespondError (Some (NewAppErr ''patchProduct'' ErrInternal (GetUserLocalizer ''en'')
                      msgURLParamErr StatusInternalServerError))]
     else
       let (patch, err) = ProductPatchFromJSON a (Body r) in
       if err \<noteq> None
       then Returned [RespondError (Some (NewAppErr ''patchProduct'' ErrInternal (GetUserLocalizer ''en'')
                        msgProductPatchFromJSON StatusInternalServerError))]
       else
         let (uprod, pErr) = PatchProduct a pid patch in
         if err \<noteq> None then Returned [RespondError pErr]
         else Returned [RespondJSON StatusOK uprod])"


section \<open>The postgres user store: GetAll, Update, Delete\<close>

text \<open>
  \<open>PgUserStore\<close> embeds \<open>PgStore\<close>, whose \<open>db\<close> handle its methods query. The database is
  the list of statements executed on it so far, each with its arguments; a method takes the
  store and returns its Go results together with the store afterwards.
\<close>

record PgUserStore =
  db :: "(string \<times> string list) list"

text \<open>\<open>model.User{}\<close>: every field at its zero value.\<close>

definition zero_User :: User where
  "zero_User = \<lparr>User_ID = 0, AvatarPublicID = None\<rparr>"

definition GetAll :: "PgUserStore \<Rightarrow> (User option list \<times> AppErr option) \<times> PgUserStore" where
  "GetAll s = (([], None), s)"

definition Update ::
  "PgUserStore \<Rightarrow> int64 \<Rightarrow> User option \<Rightarrow> (User option \<times> AppErr option) \<times> PgUserStore" where
  "Update s uid u = ((Some zero_User, None), s)"

definition Delete :: "PgUserStore \<Rightarrow> int64 \<Rightarrow> (User option \<times> AppErr option) \<times> PgUserStore" where
  "Delete s uid = ((Some zero_User, None), s)"


section \<open>The session and token flow of the specification\<close>

text \<open>
  Modelled from the spec: the data model of its section 3. The token and session code
  (\<open>IssueTokens\<close>, \<open>SaveAuth\<close>, \<open>DeleteAuth\<close>, \<open>ExtractTokenMetadata\<close>, \<open>RefreshToken\<close> of the
  application layer) is called by the handlers but is not among the files read here. An
  identity is an opaque number, a token identifier a string, a time a number of seconds.
  A signed token is taken in parsed form: the three values it encodes and its signature.
\<close>

type_synonym Identity = int
type_synonym UUID = string
type_synonym Timestamp = int
type_synonym Secret = string
type_synonym Signature = string

record Token =
  tok_identity :: Identity
  tok_uuid :: UUID
  tok_expiry :: Timestamp
  tok_signature :: Signature

record TokenPair =
  accessToken :: Token
  accessUUID :: UUID
  accessExpiry :: Timestamp
  refreshToken :: Token
  refreshUUID :: UUID
  refreshExpiry :: Timestamp

text \<open>
  Modelled from the spec: the session record, a key-value medium from a token identifier
  to the identity and the expiry of its entry (section 3).
\<close>

type_synonym SessionStore = "UUID \<rightharpoonup> Identity \<times> Timestamp"

text \<open>Modelled from the spec: the error kinds of its section 7.\<close>

datatype TokenError =
  SigningError | PersistenceError | InvalidSignature | Expired | RevokedOrUnknown | NotFound

text \<open>
  Modelled from the spec: the configuration of the issuer and the verifier (section 4.1):
  one secret and one time-to-live per token class, and the signing operation, which may
  fail (\<open>None\<close>). A signature is checked by signing the token's values again and comparing.
\<close>

record Config =
  accessSecret :: Secret
  refreshSecret :: Secret
  accessTTL :: int
  refreshTTL :: int
  sign :: "Secret \<Rightarrow> Identity \<Rightarrow> UUID \<Rightarrow> Timestamp \<Rightarrow> Signature option"

text \<open>
  Modelled from the spec: what the surroundings supply to one call. The current time, the
  two identifiers the random generator draws for a new pair, and whether the backing store
  carries out a delete and a save (a failure of the medium is \<open>PersistenceError\<close>).
\<close>

record Call =
  now :: Timestamp
  newAccessUUID :: UUID
  newRefreshUUID :: UUID
  deleteOK :: bool
  saveOK :: bool

text \<open>
  Modelled from the spec: an expiry has elapsed once the current time has reached it.
\<close>

definition elapsed :: "Timestamp \<Rightarrow> Timestamp \<Rightarrow> bool" where
  "elapsed t expiry = (expiry \<le> t)"

text \<open>
  Modelled from the spec: signing one token (section 4.1), \<open>SigningError\<close> when the
  signing operation errors.
\<close>

definition sign_token ::
  "Config \<Rightarrow> Secret \<Rightarrow> Identity \<Rightarrow> UUID \<Rightarrow> Timestamp \<Rightarrow> TokenError + Token" where
  "sign_token cfg secret identity uuid expiry =
     (case sign cfg secret identity uuid expiry of
        None \<Rightarrow> Inl SigningError
      | Some sg \<Rightarrow>
          Inr \<lparr>tok_identity = identity, tok_uuid = uuid, tok_expiry = expiry, tok_signature = sg\<rparr>)"

text \<open>
  Modelled from the spec: \<open>IssueTokens(identity) -> (TokenPair, error)\<close> of section 4.1.
  The access token encodes the identity, the access identifier and the expiry now plus the
  short time-to-live, the refresh token the identity, the refresh identifier and now plus
  the long one; each class is signed with its own secret. The issuer does not touch the
  session store.
\<close>

definition Issuer_IssueTokens :: "Config \<Rightarrow> Call \<Rightarrow> Identity \<Rightarrow> TokenError + TokenPair" where
  "Issuer_IssueTokens cfg c identity =
     (case sign_token cfg (accessSecret cfg) identity (newAccessUUID c) (now c + accessTTL cfg) of
        Inl e \<Rightarrow> Inl e
      | Inr at \<Rightarrow>
         (case sign_token cfg (refreshSecret cfg) identity (newRefreshUUID c) (now c + refreshTTL cfg) of
            Inl e \<Rightarrow> Inl e
          | Inr rt \<Rightarrow>
              Inr \<lparr>accessToken = at, accessUUID = newAccessUUID c, accessExpiry = now c + accessTTL cfg,
                   refreshToken = rt, refreshUUID = newRefreshUUID c,
                   refreshExpiry = now c + refreshTTL cfg\<rparr>))"

text \<open>
  Modelled from the spec: \<open>Save(identity, TokenPair) -> error\<close> of section 4.2. Two
  entries are written, each with the expiry of its token; on a failure of the backing
  store nothing is written.
\<close>

definition SessionStore_Save ::
  "Call \<Rightarrow> SessionStore \<Rightarrow> Identity \<Rightarrow> TokenPair \<Rightarrow> TokenError + SessionStore" where
  "SessionStore_Save c s identity pair =
     (if \<not> saveOK c then Inl PersistenceError
      else Inr (s(accessUUID pair \<mapsto> (identity, accessExpiry pair),
                 refreshUUID pair \<mapsto> (identity, refreshExpiry pair))))"

text \<open>
  Modelled from the spec: \<open>Lookup(uuid) -> (identity, error)\<close> of section 4.2,
  \<open>NotFound\<close> if the entry is absent or expired.
\<close>

definition SessionStore_Lookup :: "Call \<Rightarrow> SessionStore \<Rightarrow> UUID \<Rightarrow> TokenError + Identity" where
  "SessionStore_Lookup c s uuid =
     (case s uuid of
        None \<Rightarrow> Inl NotFound
      | Some (identity, expiry) \<Rightarrow> if elapsed (now c) expiry then Inl NotFound else Inr identity)"

text \<open>
  Modelled from the spec: \<open>Delete(uuid) -> (countDeleted, error)\<close> of section 4.2. One
  entry is removed by its identifier; the count is 0, and no error, when the identifier
  was already absent or expired.
\<close>

definition SessionStore_Delete ::
  "Call \<Rightarrow> SessionStore \<Rightarrow> UUID \<Rightarrow> TokenError + (nat \<times> SessionStore)" where
  "SessionStore_Delete c s uuid =
     (if \<not> deleteOK c then Inl PersistenceError
      else case SessionStore_Lookup c s uuid of
             Inl e \<Rightarrow> Inr (0, s(uuid := None))
           | Inr identity \<Rightarrow> Inr (1, s(uuid := None)))"

text \<open>
  Modelled from the spec: the verification of section 4.3 against a given secret. The
  signature is checked, \<open>InvalidSignature\<close> on mismatch; the expiry is checked against the
  current time, \<open>Expired\<close> if elapsed; when both pass the identifier is looked up in the
  session store, \<open>RevokedOrUnknown\<close> if absent. Section 4.3 does not say which failure is
  reported for a token that fails both checks; section 8 does: a token whose expiry has
  elapsed always fails \<open>Expired\<close>, regardless of signature validity. The expiry is
  therefore tested first. The result is the identity and the identifier the token encodes.
\<close>

definition verify_token ::
  "Config \<Rightarrow> Secret \<Rightarrow> Call \<Rightarrow> SessionStore \<Rightarrow> Token \<Rightarrow> TokenError + (Identity \<times> UUID)" where
  "verify_token cfg secret c s t =
     (if elapsed (now c) (tok_expiry t) then Inl Expired
      else if sign cfg secret (tok_identity t) (tok_uuid t) (tok_expiry t) \<noteq> Some (tok_signature t)
      then Inl InvalidSignature
      else case SessionStore_Lookup c s (tok_uuid t) of
             Inl e \<Rightarrow> Inl RevokedOrUnknown
           | Inr identity \<Rightarrow> Inr (tok_identity t, tok_uuid t))"

text \<open>
  Modelled from the spec: \<open>Extract(rawToken) -> (identity, uuid, error)\<close> of section 4.3,
  the verification against the access-token secret.
\<close>

definition Verifier_Extract ::
  "Config \<Rightarrow> Call \<Rightarrow> SessionStore \<Rightarrow> Token \<Rightarrow> TokenError + (Identity \<times> UUID)" where
  "Verifier_Extract cfg c s t = verify_token cfg (accessSecret cfg) c s t"

text \<open>
  Modelled from the spec: \<open>Refresh(rawRefreshToken) -> (TokenPair, error)\<close> of section
  4.4, with the session store before and after. Step 1 verifies the refresh token as in
  4.3 against the refresh secret, step 2 issues a new pair for its identity, step 3 deletes
  the session entry of the old refresh identifier, step 4 saves the new pair. The session
  record does not track which access identifier was paired with a refresh identifier, so
  step 3 deletes the one entry. A failure at any step is returned; one after the delete
  leaves the old entry deleted.
\<close>

definition Refresh ::
  "Config \<Rightarrow> Call \<Rightarrow> SessionStore \<Rightarrow> Token \<Rightarrow> (TokenError + TokenPair) \<times> SessionStore" where
  "Refresh cfg c s t =
     (case verify_token cfg (refreshSecret cfg) c s t of
        Inl e \<Rightarrow> (Inl e, s)
      | Inr (identity, uuid) \<Rightarrow>
         (case Issuer_IssueTokens cfg c identity of
            Inl e \<Rightarrow> (Inl e, s)
          | Inr pair \<Rightarrow>
             (case SessionStore_Delete c s uuid of
                Inl e \<Rightarrow> (Inl e, s)
              | Inr (n, s1) \<Rightarrow>
                 (case SessionStore_Save c s1 identity pair of
                    Inl e \<Rightarrow> (Inl e, s1)
                  | Inr s2 \<Rightarrow> (Inr pair, s2)))))"






section \<open>Example values for the session and token flow\<close>

text \<open>
  A configuration whose signing operation never fails, three calls one minute apart, the
  pair issued for identity 42 at the first of them, the store after saving it, the pair a
  refresh issues at the second, a token with an elapsed expiry and a signature that does
  not verify, and a login followed by a logout at the third call.
\<close>

definition example_Config :: Config where
  "example_Config =
     \<lparr>accessSecret = ''access-secret'', refreshSecret = ''refresh-secret'',
      accessTTL = 900, refreshTTL = 604800,
      sign = (\<lambda>secret identity uuid expiry. Some (secret @ ''.'' @ uuid))\<rparr>"

definition example_Call :: Call where
  "example_Call =
     \<lparr>now = 1000, newAccessUUID = ''a-1'', newRefreshUUID = ''r-1'', deleteOK = True, saveOK = True\<rparr>"

definition later_Call :: Call where
  "later_Call =
     \<lparr>now = 1060, newAccessUUID = ''a-2'', newRefreshUUID = ''r-2'', deleteOK = True, saveOK = True\<rparr>"

definition example_pair :: TokenPair where
  "example_pair =
     \<lparr>accessToken = \<lparr>tok_identity = 42, tok_uuid = ''a-1'', tok_expiry = 1900,
                      tok_signature = ''access-secret.a-1''\<rparr>,
      accessUUID = ''a-1'', accessExpiry = 1900,
      refreshToken = \<lparr>tok_identity = 42, tok_uuid = ''r-1'', tok_expiry = 605800,
                       tok_signature = ''refresh-secret.r-1''\<rparr>,
      refreshUUID = ''r-1'', refreshExpiry = 605800\<rparr>"

definition example_store :: SessionStore where
  "example_store = [''a-1'' \<mapsto> (42, 1900), ''r-1'' \<mapsto> (42, 605800)]"

definition forged_expired_Token :: Token where
  "forged_expired_Token =
     \<lparr>tok_identity = 42, tok_uuid = ''a-1'', tok_expiry = 900, tok_signature = ''forged''\<rparr>"





section \<open>Observations on a handler's outcome, and example inputs\<close>

text \<open>A handler responds success when \<open>respondOK\<close> is among the calls it made on \<open>w\<close>.\<close>

definition responds_success :: "('tm, 'p) Effect Outcome \<Rightarrow> bool" where
  "responds_success out =
     (case out of Returned w \<Rightarrow> RespondOK \<in> set w | Panicked k w \<Rightarrow> RespondOK \<in> set w)"

text \<open>
  Concrete collaborators and a concrete request, on which the handlers are evaluated below.
  In \<open>example_UserApp\<close> every call succeeds except \<open>SaveAuth\<close>, and \<open>DeleteAuth\<close> reports
  the given number of deleted records with no error; in \<open>example_ProductApp\<close>,
  \<open>PatchProduct\<close> returns a product together with an error. The request carries a
  multipart form with a \<open>name\<close> field and no file.
\<close>

definition example_user :: User where
  "example_user = \<lparr>User_ID = 42, AvatarPublicID = None\<rparr>"

definition example_AppErr :: AppErr where
  "example_AppErr =
     NewAppErr ''SaveAuth'' ErrInternal ''en'' (Message ''app.save_auth'' ''could not save session'')
       StatusInternalServerError"

definition example_Request :: "string Request" where
  "example_Request =
     \<lparr>Body = ''{}'', URLParam = (\<lambda>k. if k = ''product_id'' then ''7'' else ''''),
      ParseMultipartForm = None,
      MultipartForm = \<lparr>Value = [''name'' \<mapsto> [''lamp'']], File = Map.empty\<rparr>\<rparr>"

definition example_UserApp :: "int64 \<Rightarrow> (string, string, string, string) UserApp" where
  "example_UserApp deleted =
     \<lparr>UserFromJSON = (\<lambda>b. (Some example_user, None)),
      UserLoginFromJSON = (\<lambda>b. (b, None)),
      RefreshTokenFromJSON = (\<lambda>b. (b, None)),
      CreateUser = (\<lambda>u. (u, None)),
      Login = (\<lambda>l. (Some example_user, None)),
      IssueTokens = (\<lambda>u. (''token-pair'', None)),
      SaveAuth = (\<lambda>uid tm. Some example_AppErr),
      ExtractTokenMetadata = (\<lambda>r. (Some \<lparr>AccessUUID = ''uuid-1''\<rparr>, None)),
      DeleteAuth = (\<lambda>uuid. (deleted, None)),
      RefreshToken = (\<lambda>rt. (''token-pair-2'', None))\<rparr>"

definition example_ProductApp :: "(string, string, string) ProductApp" where
  "example_ProductApp =
     \<lparr>ParseInt = (\<lambda>s. if s = ''7'' then (7, None) else (0, Some (GoError ''invalid syntax''))),
      SchemaDecoder_Decode = (\<lambda>v. (''product'', None)),
      ProductPatchFromJSON = (\<lambda>b. (''patch'', None)),
      CreateProduct = (\<lambda>p fh headers tags properties. (p, None)),
      PatchProduct = (\<lambda>pid patch. (''stale product'',
         Some (NewAppErr ''PatchProduct'' ErrInternal ''en''
                 (Message ''app.patch_product'' ''could not patch product'') StatusInternalServerError)))\<rparr>"


section \<open>Properties of ProductBrand.Validate\<close>

lemma if_Add_append:
  "(if c then Add errs e else errs) = errs @ (if c then [e] else [])"
  by (simp add: Add_def)

lemma entries_Cons:
  "map snd (filter fst ((c, e) # t)) = (if c then [e] else []) @ map snd (filter fst t)"
  by simp

lemma Validate_entries:
  "Validate pb =
     (if brand_failing_entries pb = [] then None
      else Some (NewValidationError ''ProductBrand'' msgInvalidBrand ''''
                  (brand_failing_entries pb)))"
proof -
  have "Validate pb =
     (let errs = brand_failing_entries pb
      in if \<not> IsZero errs
         then Some (NewValidationError ''ProductBrand'' msgInvalidBrand '''' errs) else None)"
    unfolding Validate_def if_Add_append
    unfolding Let_def brand_failing_entries_def brand_field_table_def entries_Cons
      GetUserLocalizer_def Time_IsZero_def
    by (simp only: append_assoc append_Nil append_Nil2 list.map filter.simps)
  then show ?thesis
    by (simp add: IsZero_def Let_def)
qed

lemma brand_failing_entries_Nil:
  "(brand_failing_entries pb = []) =
     (ID pb = 0 \<and> ProductID pb = 0 \<and> Name pb \<noteq> [] \<and> Slug pb \<noteq> [] \<and> Type pb \<noteq> []
      \<and> Description pb \<noteq> [] \<and> Email pb \<noteq> [] \<and> WebsiteURL pb \<noteq> []
      \<and> CreatedAt pb \<noteq> 0 \<and> UpdatedAt pb \<noteq> 0)"
  by (simp add: brand_failing_entries_def brand_field_table_def)

text \<open>
  Claim C10. \<open>ProductBrand.Validate\<close> returns \<open>nil\<close> if and only if \<open>ID\<close> and
  \<open>ProductID\<close> are 0, the six string fields are non-empty and both timestamps are
  non-zero; in every other case it returns the validation error
  \<open>NewValidationError "ProductBrand" msgInvalidBrand ""\<close> over the accumulated entries,
  which are the entries of the failing fields in field order, one per failing field.
\<close>

theorem Validate_nil_iff_all_fields_ok:
  "(Validate pb = None) =
     (ID pb = 0 \<and> ProductID pb = 0 \<and> Name pb \<noteq> [] \<and> Slug pb \<noteq> [] \<and> Type pb \<noteq> []
      \<and> Description pb \<noteq> [] \<and> Email pb \<noteq> [] \<and> WebsiteURL pb \<noteq> []
      \<and> \<not> Time_IsZero (CreatedAt pb) \<and> \<not> Time_IsZero (UpdatedAt pb))
   \<and> Validate pb =
       (if brand_failing_count pb = 0 then None
        else Some (NewValidationError ''ProductBrand'' msgInvalidBrand ''''
                    (brand_failing_entries pb)))
   \<and> length (brand_failing_entries pb) = brand_failing_count pb"
proof -
  have cnt: "length (brand_failing_entries pb) = brand_failing_count pb"
    by (simp add: brand_failing_entries_def brand_failing_count_def)
  have nil: "(brand_failing_count pb = 0) = (brand_failing_entries pb = [])"
    using cnt by (metis length_0_conv)
  have res: "Validate pb =
       (if brand_failing_count pb = 0 then None
        else Some (NewValidationError ''ProductBrand'' msgInvalidBrand ''''
                    (brand_failing_entries pb)))"
    by (simp only: nil Validate_entries)
  have iff: "(Validate pb = None) = (brand_failing_entries pb = [])"
    by (simp add: Validate_entries)
  have ok: "(Validate pb = None) =
     (ID pb = 0 \<and> ProductID pb = 0 \<and> Name pb \<noteq> [] \<and> Slug pb \<noteq> [] \<and> Type pb \<noteq> []
      \<and> Description pb \<noteq> [] \<and> Email pb \<noteq> [] \<and> WebsiteURL pb \<noteq> []
      \<and> \<not> Time_IsZero (CreatedAt pb) \<and> \<not> Time_IsZero (UpdatedAt pb))"
    by (simp only: iff brand_failing_entries_Nil Time_IsZero_def)
  from ok res cnt show ?thesis by (intro conjI)
qed


section \<open>Properties of the user handlers\<close>

text \<open>
  Claim C1. The claim: when \<open>SaveAuth\<close> returns an error, login and registration treat the
  attempt as fatal, attach no session cookies and do not respond with success. The
  handlers do otherwise: after \<open>IssueTokens\<close> succeeded and \<open>SaveAuth\<close> failed with \<open>e\<close>,
  \<open>login\<close> calls \<open>respondError\<close> with \<open>e\<close> and, having no \<open>return\<close> there, goes on to
  call \<open>AttachSessionCookies\<close> with the token metadata and \<open>respondJSON\<close> with status
  200 and the user; \<open>createUser\<close> does the same with status 201.
\<close>

theorem SaveAuth_error_still_attaches_cookies:
  assumes "IssueTokens a (Some usr) = (tm, None)"
    and "SaveAuth a (User_ID usr) tm = Some e"
  shows "(UserLoginFromJSON a (Body r) = (u, None) \<and> Login a u = (Some usr, None) \<longrightarrow>
            login a r = Returned [RespondError (Some e), AttachSessionCookies tm,
                                  RespondJSON StatusOK (Some usr)])
       \<and> (UserFromJSON a (Body r) = (nu, None) \<and> CreateUser a nu = (Some usr, None) \<longrightarrow>
            createUser a r = Returned [RespondError (Some e), AttachSessionCookies tm,
                                       RespondJSON StatusCreated (Some usr)])"
  using assms by (simp add: login_def createUser_def)

theorem SaveAuth_error_still_attaches_cookies_witness:
  "login (example_UserApp 0) example_Request =
     Returned [RespondError (Some example_AppErr), AttachSessionCookies ''token-pair'',
               RespondJSON StatusOK (Some example_user)]
   \<and> createUser (example_UserApp 0) example_Request =
     Returned [RespondError (Some example_AppErr), AttachSessionCookies ''token-pair'',
               RespondJSON StatusCreated (Some example_user)]"
proof -
  have 1: "IssueTokens (example_UserApp 0) (Some example_user) = (''token-pair'', None)"
    by (simp add: example_UserApp_def)
  have 2: "SaveAuth (example_UserApp 0) (User_ID example_user) ''token-pair'' = Some example_AppErr"
    by (simp add: example_UserApp_def)
  have 3: "UserLoginFromJSON (example_UserApp 0) (Body example_Request) = (''{}'', None)
           \<and> Login (example_UserApp 0) ''{}'' = (Some example_user, None)"
    by (simp add: example_UserApp_def example_Request_def)
  have 4: "UserFromJSON (example_UserApp 0) (Body example_Request) = (Some example_user, None)
           \<and> CreateUser (example_UserApp 0) (Some example_user) = (Some example_user, None)"
    by (simp add: example_UserApp_def example_Request_def)
  from SaveAuth_error_still_attaches_cookies [OF 1 2, of example_Request "''{}''" "Some example_user"] 3 4
  show ?thesis by blast
qed

text \<open>
  Claim C2, as stated: a logout whose access token was extracted responds success when
  \<open>DeleteAuth\<close> removes zero records and returns no error. On the example collaborators
  with zero deleted records the handler calls \<open>respondError\<close> with the \<open>nil\<close> error and
  never \<open>respondOK\<close>.
\<close>

theorem logout_zero_deleted_counterexample:
  "ExtractTokenMetadata (example_UserApp 0) example_Request = (Some \<lparr>AccessUUID = ''uuid-1''\<rparr>, None)
   \<and> DeleteAuth (example_UserApp 0) ''uuid-1'' = (0, None)
   \<and> logout (example_UserApp 0) example_Request = Returned [DeleteSessionCookies, RespondError None]
   \<and> \<not> responds_success (logout (example_UserApp 0) example_Request)"
  by (simp add: logout_def example_UserApp_def responds_success_def)

text \<open>
  Claim C2, amended. For every logout request whose access token is successfully
  extracted, the handler first deletes the session cookies and then responds success
  exactly when \<open>DeleteAuth\<close> returns no error and a non-zero count; when zero records
  were deleted (or \<open>DeleteAuth\<close> failed) it takes the error branch, calling \<open>respondError\<close>
  with the error \<open>DeleteAuth\<close> returned, and does not respond success.
\<close>

theorem logout_success_iff_deleted:
  assumes "ExtractTokenMetadata a r = (Some acc, None)"
    and "DeleteAuth a (AccessUUID acc) = (deleted, err)"
  shows "logout a r =
           (if err = None \<and> deleted \<noteq> 0 then Returned [DeleteSessionCookies, RespondOK]
            else Returned [DeleteSessionCookies, RespondError err])
       \<and> responds_success (logout a r) = (err = None \<and> deleted \<noteq> 0)"
  using assms by (simp add: logout_def responds_success_def)

theorem logout_success_iff_deleted_witness:
  "logout (example_UserApp 1) example_Request = Returned [DeleteSessionCookies, RespondOK]
   \<and> responds_success (logout (example_UserApp 1) example_Request)
   \<and> logout (example_UserApp 0) example_Request = Returned [DeleteSessionCookies, RespondError None]
   \<and> \<not> responds_success (logout (example_UserApp 0) example_Request)"
proof -
  have e: "\<And>d. ExtractTokenMetadata (example_UserApp d) example_Request
             = (Some \<lparr>AccessUUID = ''uuid-1''\<rparr>, None)"
    by (simp add: example_UserApp_def)
  have d: "\<And>d. DeleteAuth (example_UserApp d) (AccessUUID \<lparr>AccessUUID = ''uuid-1''\<rparr>) = (d, None)"
    by (simp add: example_UserApp_def)
  from logout_success_iff_deleted [OF e d, of 1] logout_success_iff_deleted [OF e d, of 0]
  show ?thesis by auto
qed


section \<open>Properties of the postgres user store\<close>

text \<open>
  Claim C7. For every store (database state) and every argument, \<open>GetAll\<close> returns the
  empty slice and no error, \<open>Update\<close> and \<open>Delete\<close> return a zero-value \<open>User\<close> and no
  error, and each leaves the database as it was: no statement is executed.
\<close>

theorem PgUserStore_stubs:
  "GetAll s = (([], None), s)
   \<and> Update s uid u = ((Some \<lparr>User_ID = 0, AvatarPublicID = None\<rparr>, None), s)
   \<and> Delete s uid = ((Some \<lparr>User_ID = 0, AvatarPublicID = None\<rparr>, None), s)"
  by (simp add: GetAll_def Update_def Delete_def zero_User_def)


section \<open>Properties of the product handlers\<close>

text \<open>
  Claim C8. In \<open>patchProduct\<close>, whenever the URL parameter parses and the JSON body
  decodes but \<open>PatchProduct\<close> returns a non-\<open>nil\<close> error, the handler responds 200 with
  the product value \<open>PatchProduct\<close> returned: the test after the call reads the decode
  error, which is \<open>nil\<close>, and the returned error is never looked at.
\<close>

theorem patchProduct_ignores_PatchProduct_error:
  assumes "ParseInt a (URLParam r ''product_id'') = (pid, None)"
    and "ProductPatchFromJSON a (Body r) = (patch, None)"
    and "PatchProduct a pid patch = (uprod, Some e)"
  shows "patchProduct a r = Returned [RespondJSON 200 uprod]"
  using assms by (simp add: patchProduct_def StatusOK_def)

theorem patchProduct_ignores_PatchProduct_error_witness:
  "(patchProduct example_ProductApp example_Request :: (unit, string) Effect Outcome)
     = Returned [RespondJSON 200 ''stale product'']
   \<and> snd (PatchProduct example_ProductApp 7 ''patch'') \<noteq> None"
proof -
  have 1: "ParseInt example_ProductApp (URLParam example_Request ''product_id'') = (7, None)"
    by (simp add: example_ProductApp_def example_Request_def)
  have 2: "ProductPatchFromJSON example_ProductApp (Body example_Request) = (''patch'', None)"
    by (simp add: example_ProductApp_def)
  have 3: "PatchProduct example_ProductApp 7 ''patch'' = (''stale product'',
         Some (NewAppErr ''PatchProduct'' ErrInternal ''en''
                 (Message ''app.patch_product'' ''could not patch product'') StatusInternalServerError))"
    by (simp add: example_ProductApp_def)
  from patchProduct_ignores_PatchProduct_error [OF 1 2 3] 3 show ?thesis by simp
qed

text \<open>
  Claim C9. \<open>createProduct\<close> is not total: on every multipart request that parses and
  decodes but has no file under \<open>image\<close> or no value under \<open>properties\<close>, reading
  position 0 of the empty slice panics before anything is written to the response; the
  example request, which carries no file at all, is such a request.
\<close>

theorem createProduct_panics_without_image_or_properties:
  assumes "ParseMultipartForm r = None"
    and "SchemaDecoder_Decode a (Value (MultipartForm r)) = (p, None)"
    and "map_index (File (MultipartForm r)) ''image'' = []
         \<or> map_index (Value (MultipartForm r)) ''properties'' = []"
  shows "createProduct a r = Panicked IndexOutOfRange []"
  using assms by (auto simp add: createProduct_def Let_def split: list.splits)

theorem createProduct_panics_without_image_or_properties_witness:
  "ParseMultipartForm example_Request = None
   \<and> File (MultipartForm example_Request) ''image'' = None
   \<and> (createProduct example_ProductApp example_Request :: (unit, string) Effect Outcome)
       = Panicked IndexOutOfRange []"
proof -
  have 1: "ParseMultipartForm example_Request = None"
    by (simp add: example_Request_def)
  have 2: "SchemaDecoder_Decode example_ProductApp (Value (MultipartForm example_Request))
             = (''product'', None)"
    by (simp add: example_ProductApp_def)
  have 3: "File (MultipartForm example_Request) ''image'' = None"
    by (simp add: example_Request_def)
  then have 4: "map_index (File (MultipartForm example_Request)) ''image'' = []
         \<or> map_index (Value (MultipartForm example_Request)) ''properties'' = []"
    by (simp add: map_index_def)
  from createProduct_panics_without_image_or_properties [OF 1 2 4] 1 3 show ?thesis by simp
qed


section \<open>Properties of the session and token flow\<close>

lemma example_issue:
  "Issuer_IssueTokens example_Config example_Call 42 = Inr example_pair"
  by (simp add: Issuer_IssueTokens_def sign_token_def example_Config_def example_Call_def
      example_pair_def)

lemma example_save:
  "SessionStore_Save example_Call Map.empty 42 example_pair = Inr example_store"
  by (simp add: SessionStore_Save_def example_Call_def example_pair_def example_store_def)

text \<open>
  Claim C3, as stated: for every identity, \<open>IssueTokens\<close> followed by \<open>Extract\<close> of the
  access token returns the identity. Issuing alone writes no session record, and
  \<open>Extract\<close> looks the identifier up: on the empty store the token just issued for
  identity 42 is rejected with \<open>RevokedOrUnknown\<close>.
\<close>

theorem issue_then_extract_counterexample:
  "Issuer_IssueTokens example_Config example_Call 42 = Inr example_pair
   \<and> Verifier_Extract example_Config example_Call Map.empty (accessToken example_pair)
       = Inl RevokedOrUnknown"
  by (simp add: example_issue)
     (simp add: Verifier_Extract_def verify_token_def SessionStore_Lookup_def elapsed_def
       example_Config_def example_Call_def example_pair_def)

lemma issued_access_token:
  assumes "Issuer_IssueTokens cfg c identity = Inr pair"
  shows "tok_identity (accessToken pair) = identity"
    and "tok_uuid (accessToken pair) = accessUUID pair"
    and "tok_expiry (accessToken pair) = accessExpiry pair"
    and "sign cfg (accessSecret cfg) identity (accessUUID pair) (accessExpiry pair)
           = Some (tok_signature (accessToken pair))"
  using assms
  by (auto simp add: Issuer_IssueTokens_def sign_token_def split: option.splits sum.splits)

text \<open>
  Claim C3, amended. For every identity, when \<open>IssueTokens\<close> returns a pair (with two
  different identifiers), \<open>Save\<close> of that pair succeeds, and \<open>Extract\<close> is called on the
  resulting store before the access expiry has elapsed, \<open>Extract\<close> of the access token
  returns the identity together with the access identifier.
\<close>

theorem issue_save_extract_roundtrip:
  assumes "Issuer_IssueTokens cfg c identity = Inr pair"
    and "SessionStore_Save c s identity pair = Inr s1"
    and "accessUUID pair \<noteq> refreshUUID pair"
    and "\<not> elapsed (now c') (accessExpiry pair)"
  shows "Verifier_Extract cfg c' s1 (accessToken pair) = Inr (identity, accessUUID pair)"
proof -
  from assms(2) have s1: "s1 = s(accessUUID pair \<mapsto> (identity, accessExpiry pair),
                 refreshUUID pair \<mapsto> (identity, refreshExpiry pair))"
    by (simp add: SessionStore_Save_def split: if_splits)
  with assms(3) have "s1 (accessUUID pair) = Some (identity, accessExpiry pair)"
    by simp
  with assms(4) have "SessionStore_Lookup c' s1 (accessUUID pair) = Inr identity"
    by (simp add: SessionStore_Lookup_def)
  with issued_access_token [OF assms(1)] assms(4) show ?thesis
    by (simp add: Verifier_Extract_def verify_token_def)
qed

theorem issue_save_extract_roundtrip_witness:
  "Verifier_Extract example_Config later_Call example_store (accessToken example_pair)
     = Inr (42, ''a-1'')"
proof -
  have 3: "accessUUID example_pair \<noteq> refreshUUID example_pair"
    by (simp add: example_pair_def)
  have 4: "\<not> elapsed (now later_Call) (accessExpiry example_pair)"
    by (simp add: elapsed_def later_Call_def example_pair_def)
  from issue_save_extract_roundtrip [OF example_issue example_save 3 4]
  show ?thesis by (simp add: example_pair_def)
qed

text \<open>
  Claim C5. For every token whose expiry has elapsed at verification time, \<open>Extract\<close>
  fails with \<open>Expired\<close>, whether or not the token's signature is valid and whatever the
  session store holds. The two instances below are a token whose signature does not verify
  and the access token of the issued pair, read after its expiry.
\<close>

theorem expired_token_fails:
  assumes "elapsed (now c) (tok_expiry t)"
  shows "Verifier_Extract cfg c s t = Inl Expired"
  using assms by (simp add: Verifier_Extract_def verify_token_def)

theorem expired_token_fails_witness:
  "sign example_Config (accessSecret example_Config) (tok_identity forged_expired_Token)
      (tok_uuid forged_expired_Token) (tok_expiry forged_expired_Token)
     \<noteq> Some (tok_signature forged_expired_Token)
   \<and> Verifier_Extract example_Config example_Call example_store forged_expired_Token = Inl Expired
   \<and> sign example_Config (accessSecret example_Config) (tok_identity (accessToken example_pair))
      (tok_uuid (accessToken example_pair)) (tok_expiry (accessToken example_pair))
     = Some (tok_signature (accessToken example_pair))
   \<and> Verifier_Extract example_Config
      \<lparr>now = 2000, newAccessUUID = ''a-2'', newRefreshUUID = ''r-2'', deleteOK = True, saveOK = True\<rparr>
      example_store (accessToken example_pair) = Inl Expired"
proof -
  have bad: "sign example_Config (accessSecret example_Config) (tok_identity forged_expired_Token)
      (tok_uuid forged_expired_Token) (tok_expiry forged_expired_Token)
     \<noteq> Some (tok_signature forged_expired_Token)"
    by (simp add: example_Config_def forged_expired_Token_def)
  have good: "sign example_Config (accessSecret example_Config)
      (tok_identity (accessToken example_pair)) (tok_uuid (accessToken example_pair))
      (tok_expiry (accessToken example_pair)) = Some (tok_signature (accessToken example_pair))"
    by (simp add: example_Config_def example_pair_def)
  have e1: "elapsed (now example_Call) (tok_expiry forged_expired_Token)"
    by (simp add: elapsed_def example_Call_def forged_expired_Token_def)
  have e2: "elapsed (now \<lparr>now = 2000, newAccessUUID = ''a-2'', newRefreshUUID = ''r-2'',
                      deleteOK = True, saveOK = True\<rparr>) (tok_expiry (accessToken example_pair))"
    by (simp add: elapsed_def example_pair_def)
  from bad good expired_token_fails [OF e1, of example_Config example_store]
    expired_token_fails [OF e2, of example_Config example_store]
  show ?thesis by (intro conjI)
qed

lemma delete_removes:
  assumes "SessionStore_Delete c s u = Inr (n, s1)"
  shows "s1 = s(u := None)"
  using assms by (auto simp add: SessionStore_Delete_def split: if_splits sum.splits)

text \<open>
  Claim C6. For every issued token pair, once \<open>Delete\<close> of the access identifier has
  removed the session entry, \<open>Extract\<close> of that access token fails with
  \<open>RevokedOrUnknown\<close> at any time at which its expiry has not elapsed, that is, while the
  signature and expiry checks still pass.
\<close>

theorem extract_after_delete_RevokedOrUnknown:
  assumes "Issuer_IssueTokens cfg c identity = Inr pair"
    and "SessionStore_Delete c1 s (accessUUID pair) = Inr (n, s1)"
    and "\<not> elapsed (now c2) (accessExpiry pair)"
  shows "Verifier_Extract cfg c2 s1 (accessToken pair) = Inl RevokedOrUnknown"
proof -
  from delete_removes [OF assms(2)] have "s1 (accessUUID pair) = None"
    by simp
  then have "SessionStore_Lookup c2 s1 (accessUUID pair) = Inl NotFound"
    by (simp add: SessionStore_Lookup_def)
  with issued_access_token [OF assms(1)] assms(3) show ?thesis
    by (simp add: Verifier_Extract_def verify_token_def)
qed

theorem extract_after_delete_RevokedOrUnknown_witness:
  "Verifier_Extract example_Config later_Call example_store (accessToken example_pair)
     = Inr (42, ''a-1'')
   \<and> fst (projr (SessionStore_Delete later_Call example_store ''a-1'')) = 1
   \<and> Verifier_Extract example_Config later_Call
        (snd (projr (SessionStore_Delete later_Call example_store ''a-1'')))
        (accessToken example_pair) = Inl RevokedOrUnknown"
proof -
  have d: "SessionStore_Delete later_Call example_store (accessUUID example_pair)
            = Inr (1, example_store(''a-1'' := None))"
    by (simp add: SessionStore_Delete_def SessionStore_Lookup_def elapsed_def later_Call_def
        example_store_def example_pair_def)
  have e: "\<not> elapsed (now later_Call) (accessExpiry example_pair)"
    by (simp add: elapsed_def later_Call_def example_pair_def)
  have x: "Verifier_Extract example_Config later_Call example_store (accessToken example_pair)
     = Inr (42, ''a-1'')"
    by (simp add: Verifier_Extract_def verify_token_def SessionStore_Lookup_def elapsed_def
        example_Config_def later_Call_def example_store_def example_pair_def)
  have u: "accessUUID example_pair = ''a-1''"
    by (simp add: example_pair_def)
  from extract_after_delete_RevokedOrUnknown [OF example_issue d e] d x
  show ?thesis by (simp add: u)
qed



lemma issued_uuids:
  assumes "Issuer_IssueTokens cfg c identity = Inr pair"
  shows "accessUUID pair = newAccessUUID c" and "refreshUUID pair = newRefreshUUID c"
  using assms
  by (auto simp add: Issuer_IssueTokens_def split: sum.splits)



lemma refresh_cases:
  "(\<exists>e. Refresh cfg c s t = (Inl e, s))
   \<or> (\<exists>e n. SessionStore_Delete c s (tok_uuid t) = Inr (n, snd (Refresh cfg c s t))
            \<and> fst (Refresh cfg c s t) = Inl e)
   \<or> (\<exists>pair n s1 identity.
          sign cfg (refreshSecret cfg) (tok_identity t) (tok_uuid t) (tok_expiry t)
            = Some (tok_signature t)
        \<and> Issuer_IssueTokens cfg c identity = Inr pair
        \<and> SessionStore_Delete c s (tok_uuid t) = Inr (n, s1)
        \<and> SessionStore_Save c s1 identity pair = Inr (snd (Refresh cfg c s t))
        \<and> fst (Refresh cfg c s t) = Inr pair)"
  by (auto simp add: Refresh_def verify_token_def split: sum.splits prod.splits if_splits)




lemma save_keeps_other_entries:
  assumes "SessionStore_Save c s identity pair = Inr s1"
    and "u \<noteq> accessUUID pair" and "u \<noteq> refreshUUID pair"
  shows "s1 u = s u"
  using assms by (auto simp add: SessionStore_Save_def split: if_splits)

lemma refresh_keeps_other_entries:
  assumes "u \<noteq> tok_uuid t" and "u \<noteq> newAccessUUID c" and "u \<noteq> newRefreshUUID c"
  shows "snd (Refresh cfg c s t) u = s u"
proof -
  consider (fail) e where "Refresh cfg c s t = (Inl e, s)"
    | (del) n where "SessionStore_Delete c s (tok_uuid t) = Inr (n, snd (Refresh cfg c s t))"
    | (ok) pair n s1 identity where "Issuer_IssueTokens cfg c identity = Inr pair"
        "SessionStore_Delete c s (tok_uuid t) = Inr (n, s1)"
        "SessionStore_Save c s1 identity pair = Inr (snd (Refresh cfg c s t))"
    using refresh_cases [of cfg c s t] by blast
  then show ?thesis
  proof cases
    case fail
    then show ?thesis by simp
  next
    case del
    from delete_removes [OF del] assms(1) show ?thesis by simp
  next
    case ok
    from delete_removes [OF ok(2)] assms(1) have "s1 u = s u" by simp
    moreover from issued_uuids [OF ok(1)] assms(2,3)
    have "snd (Refresh cfg c s t) u = s1 u"
      by (intro save_keeps_other_entries [OF ok(3)]) simp_all
    ultimately show ?thesis by simp
  qed
qed






end
